theory Spec2Isabelle
  imports Main
begin

section \<open>JavaScript values, errors and the library calls of the source\<close>

text \<open>
  The values the source passes where its types say \<open>string | number\<close> or \<open>unknown\<close>:
  the lookup keys of \<open>hasArgument\<close>, \<open>hasOption\<close> and \<open>argument\<close>, the keys and values
  of the bound maps. Strict equality \<open>===\<close> of two such values is equality of the datatype:
  a string is never equal to a number.
\<close>

datatype jsvalue = JUndefined | JBoolean bool | JNumber int | JString string

text \<open>Every failure of the source is \<open>throw new Error(message)\<close>.\<close>

datatype error = Error string

type_synonym 's outcome = "(error + unit) \<times> 's"

text \<open>The template fragment \<open>"${s}"\<close>: the text between two double quotes.\<close>

definition quoted :: "string \<Rightarrow> string" where
  "quoted s = CHR 0x22 # s @ [CHR 0x22]"

text \<open>\<open>Array.prototype.join\<close>.\<close>

fun join :: "string \<Rightarrow> string list \<Rightarrow> string" where
  "join sep [] = []"
| "join sep [x] = x"
| "join sep (x # y # ys) = x @ sep @ join sep (y # ys)"

text \<open>
  \<open>forEach\<close> with a callback that may throw: the callbacks run in order on the state, and
  the first throw ends the loop with the state as it is at that moment.
\<close>

fun forEach :: "('a \<Rightarrow> 's \<Rightarrow> 's outcome) \<Rightarrow> 'a list \<Rightarrow> 's \<Rightarrow> 's outcome" where
  "forEach f [] s = (Inr (), s)"
| "forEach f (x # xs) s =
     (case f x s of
        (Inl e, s') \<Rightarrow> (Inl e, s')
      | (Inr u, s') \<Rightarrow> forEach f xs s')"

text \<open>
  The set of \<open>@supercharge/set\<close> holds objects in insertion order; it is a list here.
  \<open>find\<close> is \<^const>\<open>List.find\<close>, \<open>toArray()\<close> is the list itself.
\<close>

definition includes_item :: "('a \<Rightarrow> bool) \<Rightarrow> 'a list \<Rightarrow> bool" where
  "includes_item predicate xs = (List.find predicate xs \<noteq> None)"

definition isEmpty :: "'a list \<Rightarrow> bool" where
  "isEmpty xs = (xs = [])"

text \<open>
  \<open>add\<close> of an object that is not yet in the set: both callers add an object only after
  the check that no member has its name.
\<close>

definition add :: "'a \<Rightarrow> 'a list \<Rightarrow> 'a list" where
  "add x xs = xs @ [x]"

text \<open>\<open>!!array[i]\<close> on an array of objects: true exactly inside the bounds.\<close>

definition truthy_at :: "'a list \<Rightarrow> int \<Rightarrow> bool" where
  "truthy_at xs i = (0 \<le> i \<and> nat i < length xs)"

section \<open>Arguments, options and the input definition\<close>

text \<open>
  Modelled from the spec: the classes \<open>InputArgument\<close> and \<open>InputOption\<close> are imported by
  the source and not part of it. The source calls \<open>name()\<close> on both and \<open>shortcuts()\<close> on
  an option; the spec gives the name as a string and the shortcuts as strings.
\<close>

record InputArgument =
  arg_name :: string

record InputOption =
  opt_name :: string
  shortcuts :: "string list"

text \<open>\<open>InputDefinition.meta\<close>.\<close>

record InputDefinition =
  meta_options :: "InputOption list"
  meta_arguments :: "InputArgument list"

text \<open>\<open>new InputDefinition()\<close>.\<close>

definition new_InputDefinition :: InputDefinition where
  "new_InputDefinition = \<lparr>meta_options = [], meta_arguments = []\<rparr>"

definition options :: "InputDefinition \<Rightarrow> InputOption list" where
  "options d = meta_options d"

definition option :: "jsvalue \<Rightarrow> InputDefinition \<Rightarrow> InputOption option" where
  "option name d = List.find (\<lambda>option. JString (opt_name option) = name) (options d)"

definition hasOption :: "jsvalue \<Rightarrow> InputDefinition \<Rightarrow> bool" where
  "hasOption name d =
     (case name of
        JNumber i \<Rightarrow> truthy_at (options d) i
      | _ \<Rightarrow> includes_item (\<lambda>option. JString (opt_name option) = name) (options d))"

definition isMissingOption :: "jsvalue \<Rightarrow> InputDefinition \<Rightarrow> bool" where
  "isMissingOption name d = (\<not> hasOption name d)"

text \<open>
  \<open>addOption\<close>. The test \<open>Str(shortcut).includes(option.shortcuts())\<close> is a call of
  \<open>@supercharge/strings\<close>, a library outside the source, with the list of shortcuts of a
  registered option as the needles: the string contains one of the needles, and an empty
  needle does not count. \<open>string_includes\<close> is the native \<open>String.prototype.includes\<close>
  the library tests each needle with.
\<close>

fun string_includes :: "string \<Rightarrow> string \<Rightarrow> bool" where
  "string_includes [] needle = (needle = [])"
| "string_includes (c # cs) needle =
     (take (length needle) (c # cs) = needle \<or> string_includes cs needle)"

definition str_includes :: "string \<Rightarrow> string list \<Rightarrow> bool" where
  "str_includes s needles = (\<exists>needle \<in> set needles. needle \<noteq> [] \<and> string_includes s needle)"

text \<open>
  The two nested \<open>forEach\<close> callbacks of \<open>addOption\<close>: the inner one, on a registered
  option, and the outer one, on a shortcut of the new option.
\<close>

definition check_registered :: "string \<Rightarrow> InputOption \<Rightarrow> InputDefinition \<Rightarrow> InputDefinition outcome" where
  "check_registered shortcut registered d =
     (if str_includes shortcut (shortcuts registered)
      then (Inl (Error (''Shortcut '' @ quoted shortcut
              @ '' is already registered for option '' @ quoted (opt_name registered) @ ''.'')), d)
      else (Inr (), d))"

definition check_shortcut :: "string \<Rightarrow> InputDefinition \<Rightarrow> InputDefinition outcome" where
  "check_shortcut shortcut d = forEach (check_registered shortcut) (options d) d"

definition addOption :: "InputOption \<Rightarrow> InputDefinition \<Rightarrow> InputDefinition outcome" where
  "addOption opt d =
     (if hasOption (JString (opt_name opt)) d
      then (Inl (Error (''Option '' @ quoted (opt_name opt) @ '' is already registered.'')), d)
      else
        (case forEach check_shortcut (shortcuts opt) d of
           (Inl e, d') \<Rightarrow> (Inl e, d')
         | (Inr u, d') \<Rightarrow> (Inr (), d'\<lparr>meta_options := add opt (options d')\<rparr>)))"

definition arguments :: "InputDefinition \<Rightarrow> InputArgument list" where
  "arguments d = meta_arguments d"

definition argument :: "jsvalue \<Rightarrow> InputDefinition \<Rightarrow> InputArgument option" where
  "argument name d = List.find (\<lambda>argument. JString (arg_name argument) = name) (arguments d)"

definition hasArgument :: "jsvalue \<Rightarrow> InputDefinition \<Rightarrow> bool" where
  "hasArgument name d =
     (case name of
        JNumber i \<Rightarrow> truthy_at (arguments d) i
      | _ \<Rightarrow> includes_item (\<lambda>argument. JString (arg_name argument) = name) (arguments d))"

definition isMissingArgument :: "jsvalue \<Rightarrow> InputDefinition \<Rightarrow> bool" where
  "isMissingArgument name d = (\<not> hasArgument name d)"

definition addArgument :: "InputArgument \<Rightarrow> InputDefinition \<Rightarrow> InputDefinition outcome" where
  "addArgument arg d =
     (if hasArgument (JString (arg_name arg)) d
      then (Inl (Error (''Option '' @ quoted (arg_name arg) @ '' is already registered.'')), d)
      else (Inr (), d\<lparr>meta_arguments := add arg (arguments d)\<rparr>))"

text \<open>
  Modelled from the spec: \<open>hasOptionShortcut\<close>, \<open>optionByShortcut\<close> and
  \<open>argumentNames\<close> are called by \<open>ArgvInput\<close> and are not among the methods of
  \<open>InputDefinition\<close> in the source. The spec: a key "matches a registered shortcut" and
  resolves "to the owning option"; \<open>argumentNames()\<close> "produces the ordered sequence of
  argument names".
\<close>

definition hasOptionShortcut :: "string \<Rightarrow> InputDefinition \<Rightarrow> bool" where
  "hasOptionShortcut name d = includes_item (\<lambda>option. name \<in> set (shortcuts option)) (options d)"

definition optionByShortcut :: "string \<Rightarrow> InputDefinition \<Rightarrow> InputOption option" where
  "optionByShortcut name d = List.find (\<lambda>option. name \<in> set (shortcuts option)) (options d)"

definition argumentNames :: "InputDefinition \<Rightarrow> string list" where
  "argumentNames d = map arg_name (arguments d)"

section \<open>The input and its binding\<close>

text \<open>
  Modelled from the spec: the base class \<open>Input\<close> is imported by the source and not part
  of it. It owns the definition and the two outputs of binding, the bound arguments and the
  bound options, each "a mapping from argument/option name to its assigned raw value";
  \<open>setOption\<close> assigns a value under a name. A key is a \<^typ>\<open>jsvalue\<close> because the source
  computes it with \<open>?.name()\<close>, which is \<open>undefined\<close> on a missing object.
\<close>

record Input =
  input_definition :: InputDefinition
  input_arguments :: "jsvalue \<rightharpoonup> jsvalue"
  input_options :: "jsvalue \<rightharpoonup> jsvalue"

definition setOption :: "jsvalue \<Rightarrow> jsvalue \<Rightarrow> 'a Input_scheme \<Rightarrow> 'a Input_scheme" where
  "setOption name v s = s\<lparr>input_options := (input_options s)(name \<mapsto> v)\<rparr>"

text \<open>
  The tokenizer's output \<open>ParsedArgs\<close>: the positional tokens \<open>_\<close>, and the other keys
  with their values in the order \<open>Object.entries\<close> lists them.
\<close>

record ParsedArgs =
  positional :: "string list"
  named :: "(string \<times> jsvalue) list"

record ArgvInput = Input +
  args :: "string list"
  parsed :: ParsedArgs

text \<open>\<open>object?.name()\<close>.\<close>

definition argument_name_of :: "InputArgument option \<Rightarrow> jsvalue" where
  "argument_name_of arg = (case arg of None \<Rightarrow> JUndefined | Some a \<Rightarrow> JString (arg_name a))"

definition option_name_of :: "InputOption option \<Rightarrow> jsvalue" where
  "option_name_of opt = (case opt of None \<Rightarrow> JUndefined | Some registered \<Rightarrow> JString (opt_name registered))"

text \<open>The callback of \<open>args.forEach\<close> in \<open>assignArgumentsFrom\<close>.\<close>

definition assignArgument :: "nat \<times> string \<Rightarrow> ArgvInput \<Rightarrow> ArgvInput outcome" where
  "assignArgument = (\<lambda>(index, token) s.
     if hasArgument (JNumber (int index)) (input_definition s)
     then (let arg = argument (JNumber (int index)) (input_definition s)
           in (Inr (), s\<lparr>input_arguments := (input_arguments s)(argument_name_of arg \<mapsto> JString token)\<rparr>))
     else if isEmpty (arguments (input_definition s))
     then (Inl (Error ''No arguments expected''), s)
     else (Inl (Error (''Too many arguments: expected arguments ''
             @ quoted (join '', '' (argumentNames (input_definition s))))), s))"

definition assignArgumentsFrom :: "string list \<Rightarrow> ArgvInput \<Rightarrow> ArgvInput outcome" where
  "assignArgumentsFrom argv s = forEach assignArgument (enumerate 0 argv) s"

text \<open>The callback of \<open>Object.entries(options).forEach\<close> in \<open>assignOptionsFrom\<close>.\<close>

definition assignOption :: "string \<times> jsvalue \<Rightarrow> ArgvInput \<Rightarrow> ArgvInput outcome" where
  "assignOption = (\<lambda>(name, v) s.
     if hasOptionShortcut name (input_definition s)
     then (let opt = optionByShortcut name (input_definition s)
           in (Inr (), setOption (option_name_of opt) v s))
     else if hasOption (JString name) (input_definition s)
     then (Inr (), s\<lparr>input_options := (input_options s)(JString name \<mapsto> v)\<rparr>)
     else (Inl (Error (''Unexpected option '' @ quoted name)), s))"

definition assignOptionsFrom :: "(string \<times> jsvalue) list \<Rightarrow> ArgvInput \<Rightarrow> ArgvInput outcome" where
  "assignOptionsFrom opts s = forEach assignOption opts s"


text \<open>\<open>array[i]\<close>: \<open>undefined\<close> outside the bounds; \<open>a ?? b\<close>.\<close>

definition at_index :: "'a list \<Rightarrow> nat \<Rightarrow> 'a option" where
  "at_index xs i = (if i < length xs then Some (xs ! i) else None)"

definition nullish_or :: "'a option \<Rightarrow> 'a \<Rightarrow> 'a" where
  "nullish_or a b = (case a of None \<Rightarrow> b | Some x \<Rightarrow> x)"

definition firstArgument :: "ArgvInput \<Rightarrow> string" where
  "firstArgument s = nullish_or (at_index (positional (parsed s)) 0) ''''"

section \<open>Inputs of the examples\<close>

text \<open>
  The definition of the spec's scenario: the argument \<open>file\<close> and the option \<open>verbose\<close>
  with the shortcut \<open>v\<close>; and a fresh input on a definition, with nothing bound yet.
\<close>

definition scenario_definition :: InputDefinition where
  "scenario_definition =
     \<lparr>meta_options = [\<lparr>opt_name = ''verbose'', shortcuts = [''v'']\<rparr>],
      meta_arguments = [\<lparr>arg_name = ''file''\<rparr>]\<rparr>"

definition fresh_input :: "InputDefinition \<Rightarrow> ArgvInput" where
  "fresh_input d =
     \<lparr>input_definition = d, input_arguments = Map.empty, input_options = Map.empty,
      args = [], parsed = \<lparr>positional = [], named = []\<rparr>\<rparr>"

text \<open>A definition with two arguments.\<close>

definition copy_definition :: InputDefinition where
  "copy_definition =
     \<lparr>meta_options = [], meta_arguments = [\<lparr>arg_name = ''source''\<rparr>, \<lparr>arg_name = ''target''\<rparr>]\<rparr>"

text \<open>
  A definition in which the name of one option is the shortcut of another. No two
  options share a name and no two share a shortcut.
\<close>

definition shadowed_definition :: InputDefinition where
  "shadowed_definition =
     \<lparr>meta_options = [\<lparr>opt_name = ''v'', shortcuts = [''x'']\<rparr>,
                      \<lparr>opt_name = ''verbose'', shortcuts = [''v'']\<rparr>],
      meta_arguments = []\<rparr>"


section \<open>Lookups\<close>

lemma includes_iff: "includes_item P xs = (\<exists>x \<in> set xs. P x)"
  by (auto simp: includes_item_def find_None_iff)

lemma hasArgument_name: "hasArgument (JString n) d = (\<exists>a \<in> set (arguments d). arg_name a = n)"
  by (simp add: hasArgument_def includes_iff)

lemma hasOption_name: "hasOption (JString n) d = (\<exists>registered \<in> set (options d). opt_name registered = n)"
  by (simp add: hasOption_def includes_iff)

lemma hasArgument_index: "hasArgument (JNumber (int i)) d = (i < length (arguments d))"
  by (simp add: hasArgument_def truthy_at_def)

lemma argument_index: "argument (JNumber i) d = None"
  by (simp add: argument_def find_None_iff)

section \<open>Registration\<close>

text \<open>
  C6. Adding an argument whose name is the name of a registered argument throws (the
  message is the source's, which says "Option"), and the definition is the one before the
  call: nothing was added.
\<close>

theorem addArgument_duplicate_name:
  "\<exists>a \<in> set (arguments d). arg_name a = arg_name arg \<Longrightarrow>
   addArgument arg d =
     (Inl (Error (''Option '' @ quoted (arg_name arg) @ '' is already registered.'')), d)"
  by (simp add: addArgument_def hasArgument_name)

theorem addArgument_duplicate_name_witness:
  "(\<exists>a \<in> set (arguments scenario_definition). arg_name a = arg_name \<lparr>arg_name = ''file''\<rparr>)
   \<and> addArgument \<lparr>arg_name = ''file''\<rparr> scenario_definition
     = (Inl (Error (''Option '' @ quoted ''file'' @ '' is already registered.'')), scenario_definition)"
  using addArgument_duplicate_name [of scenario_definition "\<lparr>arg_name = ''file''\<rparr>"]
  by (simp add: arguments_def scenario_definition_def)



lemma forEach_check_registered_miss:
  "\<not> (\<exists>registered \<in> set regs. str_includes k (shortcuts registered)) \<Longrightarrow>
   forEach (check_registered k) regs d = (Inr (), d)"
  by (induction regs) (simp_all add: check_registered_def)



lemma forEach_check_shortcut_miss:
  "\<not> (\<exists>k \<in> set ks. \<exists>registered \<in> set (options d). str_includes k (shortcuts registered)) \<Longrightarrow>
   forEach check_shortcut ks d = (Inr (), d)"
  by (induction ks) (simp_all add: check_shortcut_def forEach_check_registered_miss)

lemma addOption_registers:
  assumes "\<forall>registered \<in> set (options d). opt_name registered \<noteq> opt_name opt"
    and "\<not> (\<exists>k \<in> set (shortcuts opt). \<exists>registered \<in> set (options d).
            str_includes k (shortcuts registered))"
  shows "addOption opt d = (Inr (), d\<lparr>meta_options := options d @ [opt]\<rparr>)"
proof -
  from assms(1) have "\<not> hasOption (JString (opt_name opt)) d"
    by (simp add: hasOption_name)
  with forEach_check_shortcut_miss [OF assms(2)] show ?thesis
    by (simp add: addOption_def add_def)
qed

lemma addArgument_registers:
  "\<forall>a \<in> set (arguments d). arg_name a \<noteq> arg_name arg \<Longrightarrow>
   addArgument arg d = (Inr (), d\<lparr>meta_arguments := arguments d @ [arg]\<rparr>)"
  by (simp add: addArgument_def hasArgument_name add_def)




text \<open>The definitions of the examples are what the registration calls build.\<close>

lemma scenario_definition_registered:
  "addOption \<lparr>opt_name = ''verbose'', shortcuts = [''v'']\<rparr>
     (snd (addArgument \<lparr>arg_name = ''file''\<rparr> new_InputDefinition))
   = (Inr (), scenario_definition)"
  by (simp add: addArgument_registers addOption_registers new_InputDefinition_def
      scenario_definition_def arguments_def options_def)

lemma shadowed_definition_registered:
  "addOption \<lparr>opt_name = ''verbose'', shortcuts = [''v'']\<rparr>
     (snd (addOption \<lparr>opt_name = ''v'', shortcuts = [''x'']\<rparr> new_InputDefinition))
   = (Inr (), shadowed_definition)"
  by (simp add: addOption_registers new_InputDefinition_def shadowed_definition_def
      options_def str_includes_def)

lemma copy_definition_registered:
  "addArgument \<lparr>arg_name = ''target''\<rparr>
     (snd (addArgument \<lparr>arg_name = ''source''\<rparr> new_InputDefinition))
   = (Inr (), copy_definition)"
  by (simp add: addArgument_registers new_InputDefinition_def copy_definition_def arguments_def)

section \<open>Binding the positional tokens\<close>

lemma forEach_append:
  "forEach f (xs @ ys) s =
     (case forEach f xs s of (Inl e, s') \<Rightarrow> (Inl e, s') | (Inr u, s') \<Rightarrow> forEach f ys s')"
  by (induction xs arbitrary: s) (auto split: prod.splits sum.splits)

lemma assignArgument_within:
  "i < length (arguments (input_definition s)) \<Longrightarrow>
   assignArgument (i, token) s =
     (Inr (), s\<lparr>input_arguments := (input_arguments s)(JUndefined \<mapsto> JString token)\<rparr>)"
  by (simp add: assignArgument_def hasArgument_index argument_index argument_name_of_def)

lemma assignArgument_beyond:
  "\<not> i < length (arguments (input_definition s)) \<Longrightarrow>
   assignArgument (i, token) s =
     (if arguments (input_definition s) = [] then (Inl (Error ''No arguments expected''), s)
      else (Inl (Error (''Too many arguments: expected arguments ''
             @ quoted (join '', '' (map arg_name (arguments (input_definition s)))))), s))"
  by (simp add: assignArgument_def hasArgument_index isEmpty_def argumentNames_def)

lemma forEach_assignArgument_within:
  "n + length tokens \<le> length (arguments (input_definition s)) \<Longrightarrow>
   forEach assignArgument (enumerate n tokens) s =
     (Inr (), if tokens = [] then s
              else s\<lparr>input_arguments := (input_arguments s)(JUndefined \<mapsto> JString (last tokens))\<rparr>)"
proof (induction tokens arbitrary: n s)
  case Nil
  then show ?case by simp
next
  case (Cons t ts)
  let ?s' = "s\<lparr>input_arguments := (input_arguments s)(JUndefined \<mapsto> JString t)\<rparr>"
  from Cons.prems have step: "assignArgument (n, t) s = (Inr (), ?s')"
    by (simp add: assignArgument_within)
  from Cons.prems have "Suc n + length ts \<le> length (arguments (input_definition ?s'))"
    by simp
  from Cons.IH [OF this] step show ?case
    by simp
qed

lemma assignArgumentsFrom_outcome:
  "fst (assignArgumentsFrom argv s) =
     (if length argv \<le> length (arguments (input_definition s)) then Inr ()
      else if arguments (input_definition s) = [] then Inl (Error ''No arguments expected'')
      else Inl (Error (''Too many arguments: expected arguments ''
             @ quoted (join '', '' (map arg_name (arguments (input_definition s)))))))"
proof (cases "length argv \<le> length (arguments (input_definition s))")
  case True
  then show ?thesis
    by (simp add: assignArgumentsFrom_def forEach_assignArgument_within)
next
  case False
  let ?N = "length (arguments (input_definition s))"
  let ?pre = "take ?N argv"
  from False obtain t rest where rest: "drop ?N argv = t # rest"
    by (cases "drop ?N argv") auto
  have len: "length ?pre = ?N" using False by simp
  have split: "enumerate 0 argv = enumerate 0 ?pre @ (?N, t) # enumerate (Suc ?N) rest"
  proof -
    have "enumerate 0 argv = enumerate 0 (?pre @ t # rest)"
      using rest by (metis append_take_drop_id)
    then show ?thesis using False by (simp add: enumerate_append_eq min_def)
  qed
  obtain s' where pre: "forEach assignArgument (enumerate 0 ?pre) s = (Inr (), s')"
      and def': "input_definition s' = input_definition s"
    using forEach_assignArgument_within [of 0 ?pre s] len by (cases "?pre = []") auto
  show ?thesis
    using False
    by (simp add: assignArgumentsFrom_def split forEach_append pre assignArgument_beyond def')
qed

lemma assignArgumentsFrom_state:
  "snd (assignArgumentsFrom argv s) =
     (if take (length (arguments (input_definition s))) argv = [] then s
      else s\<lparr>input_arguments := (input_arguments s)
             (JUndefined \<mapsto> JString (last (take (length (arguments (input_definition s))) argv)))\<rparr>)"
proof (cases "length argv \<le> length (arguments (input_definition s))")
  case True
  then show ?thesis
    by (simp add: assignArgumentsFrom_def forEach_assignArgument_within)
next
  case False
  let ?N = "length (arguments (input_definition s))"
  let ?pre = "take ?N argv"
  from False obtain t rest where rest: "drop ?N argv = t # rest"
    by (cases "drop ?N argv") auto
  have len: "length ?pre = ?N" using False by simp
  have split: "enumerate 0 argv = enumerate 0 ?pre @ (?N, t) # enumerate (Suc ?N) rest"
  proof -
    have "enumerate 0 argv = enumerate 0 (?pre @ t # rest)"
      using rest by (metis append_take_drop_id)
    then show ?thesis using False by (simp add: enumerate_append_eq min_def)
  qed
  have pre: "forEach assignArgument (enumerate 0 ?pre) s =
     (Inr (), if ?pre = [] then s
              else s\<lparr>input_arguments := (input_arguments s)(JUndefined \<mapsto> JString (last ?pre))\<rparr>)"
    using forEach_assignArgument_within [of 0 ?pre s] len by simp
  show ?thesis
    using False
    by (simp add: assignArgumentsFrom_def split forEach_append pre assignArgument_beyond)
qed

text \<open>
  C3. When the definition has arguments and the positional tokens are more than they, binding
  throws, and the message lists the names of all the arguments in the order of their
  registration, joined by a comma and a space.
\<close>

theorem assignArgumentsFrom_too_many:
  "arguments (input_definition s) \<noteq> [] \<Longrightarrow>
   length (arguments (input_definition s)) < length argv \<Longrightarrow>
   fst (assignArgumentsFrom argv s) =
     Inl (Error (''Too many arguments: expected arguments ''
        @ quoted (join '', '' (map arg_name (arguments (input_definition s))))))"
  by (simp add: assignArgumentsFrom_outcome)

theorem assignArgumentsFrom_too_many_witness:
  "arguments (input_definition (fresh_input copy_definition)) \<noteq> []
   \<and> length (arguments (input_definition (fresh_input copy_definition))) < length [''a'', ''b'', ''c'']
   \<and> fst (assignArgumentsFrom [''a'', ''b'', ''c''] (fresh_input copy_definition)) =
     Inl (Error (''Too many arguments: expected arguments '' @ quoted ''source, target''))"
  using assignArgumentsFrom_too_many [of "fresh_input copy_definition" "[''a'', ''b'', ''c'']"]
  by (simp add: fresh_input_def copy_definition_def arguments_def)

text \<open>
  C7. Binding throws "No arguments expected" exactly when there is a positional token and
  the definition has no argument: every non-empty token list fails so on such a
  definition, and no other case raises this error.
\<close>

theorem assignArgumentsFrom_none_expected:
  "(fst (assignArgumentsFrom argv s) = Inl (Error ''No arguments expected''))
   = (argv \<noteq> [] \<and> arguments (input_definition s) = [])"
  by (auto simp: assignArgumentsFrom_outcome)

theorem assignArgumentsFrom_none_expected_witness:
  "fst (assignArgumentsFrom [''a.txt''] (fresh_input new_InputDefinition))
     = Inl (Error ''No arguments expected'')
   \<and> fst (assignArgumentsFrom [''a.txt'', ''b.txt''] (fresh_input scenario_definition))
     \<noteq> Inl (Error ''No arguments expected'')"
  using assignArgumentsFrom_none_expected [of "[''a.txt'']" "fresh_input new_InputDefinition"]
    assignArgumentsFrom_none_expected [of "[''a.txt'', ''b.txt'']" "fresh_input scenario_definition"]
  by (simp add: fresh_input_def new_InputDefinition_def scenario_definition_def arguments_def)

text \<open>
  C8. Fewer positional tokens than arguments: binding returns without an error, and
  the name of every argument past the tokens is bound to what it was bound to before
  the call (to nothing, on a fresh input).
\<close>

theorem assignArgumentsFrom_fewer_tokens:
  "length argv < length (arguments (input_definition s)) \<Longrightarrow>
   fst (assignArgumentsFrom argv s) = Inr ()
   \<and> (\<forall>i. length argv \<le> i \<and> i < length (arguments (input_definition s)) \<longrightarrow>
         input_arguments (snd (assignArgumentsFrom argv s))
           (JString (arg_name (arguments (input_definition s) ! i)))
         = input_arguments s (JString (arg_name (arguments (input_definition s) ! i))))"
  by (simp add: assignArgumentsFrom_outcome assignArgumentsFrom_state)

theorem assignArgumentsFrom_fewer_tokens_witness:
  "length [''a.txt''] < length (arguments (input_definition (fresh_input copy_definition)))
   \<and> fst (assignArgumentsFrom [''a.txt''] (fresh_input copy_definition)) = Inr ()
   \<and> input_arguments (snd (assignArgumentsFrom [''a.txt''] (fresh_input copy_definition)))
        (JString ''target'') = None"
proof -
  have h: "length [''a.txt''] < length (arguments (input_definition (fresh_input copy_definition)))"
    by (simp add: fresh_input_def copy_definition_def arguments_def)
  note bound = assignArgumentsFrom_fewer_tokens [OF h]
  from bound [THEN conjunct2, THEN spec, of 1]
  have "input_arguments (snd (assignArgumentsFrom [''a.txt''] (fresh_input copy_definition)))
          (JString ''target'') = None"
    by (simp add: fresh_input_def copy_definition_def arguments_def)
  with h bound [THEN conjunct1] show ?thesis by simp
qed

text \<open>
  C1. The spec's scenario, one token for the one argument \<open>file\<close>: the source looks the
  argument up with \<open>argument(index)\<close>, which compares names with the number and finds
  nothing, so the token is bound under \<open>undefined\<close> and the name \<open>file\<close> stays unbound.
\<close>

theorem assignArgumentsFrom_scenario_binds_undefined:
  "fst (assignArgumentsFrom [''a.txt''] (fresh_input scenario_definition)) = Inr ()
   \<and> input_arguments (snd (assignArgumentsFrom [''a.txt''] (fresh_input scenario_definition)))
        (JString ''file'') = None
   \<and> input_arguments (snd (assignArgumentsFrom [''a.txt''] (fresh_input scenario_definition)))
        JUndefined = Some (JString ''a.txt'')"
  by (simp add: assignArgumentsFrom_outcome assignArgumentsFrom_state
      fresh_input_def scenario_definition_def arguments_def)

text \<open>
  C10. \<open>firstArgument\<close> returns the empty string when there is no positional token, and
  the first positional token otherwise; it is a string in both cases.
\<close>

theorem firstArgument_value:
  "firstArgument s = (if positional (parsed s) = [] then '''' else hd (positional (parsed s)))"
  by (cases "positional (parsed s)") (simp_all add: firstArgument_def at_index_def nullish_or_def)

section \<open>Binding the option tokens\<close>

lemma hasOptionShortcut_iff:
  "hasOptionShortcut k d = (\<exists>registered \<in> set (options d). k \<in> set (shortcuts registered))"
  by (simp add: hasOptionShortcut_def includes_iff)

lemma assignOption_unmatched:
  "\<not> hasOptionShortcut k (input_definition s) \<Longrightarrow> \<not> hasOption (JString k) (input_definition s) \<Longrightarrow>
   assignOption (k, v) s = (Inl (Error (''Unexpected option '' @ quoted k)), s)"
  by (simp add: assignOption_def)

lemma assignOption_matched:
  "hasOptionShortcut k (input_definition s) \<or> hasOption (JString k) (input_definition s) \<Longrightarrow>
   fst (assignOption (k, v) s) = Inr ()
   \<and> input_definition (snd (assignOption (k, v) s)) = input_definition s"
  by (auto simp: assignOption_def setOption_def)


lemma assignOption_definition:
  "input_definition (snd (assignOption kv s)) = input_definition s"
  by (cases kv) (simp add: assignOption_def setOption_def)

lemma forEach_assignOption_definition:
  "input_definition (snd (forEach assignOption opts s)) = input_definition s"
proof (induction opts arbitrary: s)
  case Nil
  then show ?case by simp
next
  case (Cons kv opts)
  show ?case
  proof (cases "assignOption kv s")
    case (Pair r s')
    with assignOption_definition [of kv s] have "input_definition s' = input_definition s"
      by simp
    with Pair Cons.IH [of s'] show ?thesis
      by (cases r) simp_all
  qed
qed

lemma forEach_assignOption_matched:
  "\<forall>(j, w) \<in> set pre. hasOptionShortcut j (input_definition s) \<or> hasOption (JString j) (input_definition s) \<Longrightarrow>
   fst (forEach assignOption pre s) = Inr ()"
proof (induction pre arbitrary: s)
  case Nil
  then show ?case by simp
next
  case (Cons kv pre)
  obtain j w where kv: "kv = (j, w)" by (cases kv)
  from Cons.prems kv
  have m: "hasOptionShortcut j (input_definition s) \<or> hasOption (JString j) (input_definition s)"
    by simp
  obtain s' where s': "assignOption (j, w) s = (Inr (), s')" "input_definition s' = input_definition s"
    using assignOption_matched [OF m, of w] by (cases "assignOption (j, w) s") auto
  from Cons.prems s'(2)
  have "\<forall>(j, w) \<in> set pre. hasOptionShortcut j (input_definition s') \<or> hasOption (JString j) (input_definition s')"
    by simp
  from Cons.IH [OF this] show ?case
    by (simp add: kv s'(1))
qed

text \<open>
  C4, as amended. An option token whose key is neither the name nor a shortcut of a registered
  option, after tokens whose keys all are one or the other: binding throws, and
  the message names that key. (The loop stops at the first throw, so an unmatched key
  is named only when no unmatched key comes before it.)
\<close>

theorem assignOptionsFrom_unexpected:
  assumes "\<forall>registered \<in> set (options (input_definition s)).
             opt_name registered \<noteq> k \<and> k \<notin> set (shortcuts registered)"
    and "\<forall>(j, w) \<in> set pre. \<exists>registered \<in> set (options (input_definition s)).
             opt_name registered = j \<or> j \<in> set (shortcuts registered)"
  shows "fst (assignOptionsFrom (pre @ (k, v) # post) s)
           = Inl (Error (''Unexpected option '' @ quoted k))"
proof -
  from assms(2)
  have "\<forall>(j, w) \<in> set pre. hasOptionShortcut j (input_definition s) \<or> hasOption (JString j) (input_definition s)"
    by (fastforce simp: hasOptionShortcut_iff hasOption_name)
  then have "fst (forEach assignOption pre s) = Inr ()"
    by (rule forEach_assignOption_matched)
  then obtain s' where pre: "forEach assignOption pre s = (Inr (), s')"
    by (cases "forEach assignOption pre s") auto
  with forEach_assignOption_definition [of pre s]
  have d: "input_definition s' = input_definition s" by simp
  from assms(1) d
  have "\<not> hasOptionShortcut k (input_definition s')" "\<not> hasOption (JString k) (input_definition s')"
    by (auto simp: hasOptionShortcut_iff hasOption_name)
  then have "assignOption (k, v) s' = (Inl (Error (''Unexpected option '' @ quoted k)), s')"
    by (rule assignOption_unmatched)
  with pre show ?thesis
    by (simp add: assignOptionsFrom_def forEach_append)
qed

theorem assignOptionsFrom_unexpected_witness:
  "fst (assignOptionsFrom [(''v'', JBoolean True), (''force'', JBoolean True), (''verbose'', JBoolean False)]
          (fresh_input scenario_definition))
     = Inl (Error (''Unexpected option '' @ quoted ''force''))"
  using assignOptionsFrom_unexpected
    [of "fresh_input scenario_definition" "''force''" "[(''v'', JBoolean True)]" "JBoolean True"
        "[(''verbose'', JBoolean False)]"]
  by (simp add: fresh_input_def scenario_definition_def options_def)

text \<open>
  C4 as stated fails: of two unmatched keys \<open>a\<close> and \<open>b\<close>, in this order, the message
  names \<open>a\<close>; no error names \<open>b\<close>.
\<close>

theorem assignOptionsFrom_names_first_unmatched_key:
  "fst (assignOptionsFrom [(''a'', JBoolean True), (''b'', JBoolean True)]
          (fresh_input scenario_definition))
     = Inl (Error (''Unexpected option '' @ quoted ''a''))
   \<and> fst (assignOptionsFrom [(''a'', JBoolean True), (''b'', JBoolean True)]
          (fresh_input scenario_definition))
     \<noteq> Inl (Error (''Unexpected option '' @ quoted ''b''))"
  by (simp add: assignOptionsFrom_def assignOption_def hasOptionShortcut_def hasOption_def
      includes_item_def fresh_input_def scenario_definition_def options_def quoted_def)

lemma optionByShortcut_Some:
  "optionByShortcut k d = Some registered \<Longrightarrow> registered \<in> set (options d) \<and> k \<in> set (shortcuts registered)"
  by (auto simp: optionByShortcut_def find_Some_iff)

lemma hasOptionShortcut_optionByShortcut:
  "hasOptionShortcut k d = (optionByShortcut k d \<noteq> None)"
  by (simp add: hasOptionShortcut_def optionByShortcut_def includes_item_def)

lemma assignOption_by_shortcut:
  assumes "opt \<in> set (options (input_definition s))" and "k \<in> set (shortcuts opt)"
    and "\<forall>registered \<in> set (options (input_definition s)).
           k \<in> set (shortcuts registered) \<longrightarrow> opt_name registered = opt_name opt"
  shows "assignOption (k, v) s =
           (Inr (), s\<lparr>input_options := (input_options s)(JString (opt_name opt) \<mapsto> v)\<rparr>)"
proof -
  from assms(1,2) have h: "hasOptionShortcut k (input_definition s)"
    by (auto simp: hasOptionShortcut_iff)
  then obtain registered where r: "optionByShortcut k (input_definition s) = Some registered"
    by (auto simp: hasOptionShortcut_optionByShortcut)
  from optionByShortcut_Some [OF r] assms(3) have "opt_name registered = opt_name opt"
    by blast
  with h r show ?thesis
    by (simp add: assignOption_def setOption_def option_name_of_def)
qed

lemma assignOption_by_name:
  assumes "opt \<in> set (options (input_definition s))"
    and "\<forall>registered \<in> set (options (input_definition s)).
           opt_name opt \<in> set (shortcuts registered) \<longrightarrow> opt_name registered = opt_name opt"
  shows "assignOption (opt_name opt, v) s =
           (Inr (), s\<lparr>input_options := (input_options s)(JString (opt_name opt) \<mapsto> v)\<rparr>)"
proof (cases "hasOptionShortcut (opt_name opt) (input_definition s)")
  case True
  then obtain registered where r: "optionByShortcut (opt_name opt) (input_definition s) = Some registered"
    by (auto simp: hasOptionShortcut_optionByShortcut)
  from optionByShortcut_Some [OF r] assms(2) have "opt_name registered = opt_name opt"
    by blast
  with True r show ?thesis
    by (simp add: assignOption_def setOption_def option_name_of_def)
next
  case False
  from assms(1) have "hasOption (JString (opt_name opt)) (input_definition s)"
    by (auto simp: hasOption_name)
  with False show ?thesis
    by (simp add: assignOption_def)
qed

text \<open>
  C5, as amended. A registered option and one of its shortcuts, where every option carrying
  that shortcut has the option's name, and every option carrying the option's name as a
  shortcut has that name too: the token keyed by the shortcut and the token keyed by
  the name bind alike, the value under the option's name.
\<close>

theorem assignOptionsFrom_shortcut_as_name:
  assumes "opt \<in> set (options (input_definition s))" and "k \<in> set (shortcuts opt)"
    and "\<forall>registered \<in> set (options (input_definition s)).
           k \<in> set (shortcuts registered) \<longrightarrow> opt_name registered = opt_name opt"
    and "\<forall>registered \<in> set (options (input_definition s)).
           opt_name opt \<in> set (shortcuts registered) \<longrightarrow> opt_name registered = opt_name opt"
  shows "assignOptionsFrom [(k, v)] s = assignOptionsFrom [(opt_name opt, v)] s
       \<and> assignOptionsFrom [(k, v)] s =
           (Inr (), s\<lparr>input_options := (input_options s)(JString (opt_name opt) \<mapsto> v)\<rparr>)"
  using assignOption_by_shortcut [OF assms(1,2,3), of v] assignOption_by_name [OF assms(1,4), of v]
  by (simp add: assignOptionsFrom_def)

theorem assignOptionsFrom_shortcut_as_name_witness:
  "assignOptionsFrom [(''v'', JBoolean True)] (fresh_input scenario_definition)
     = assignOptionsFrom [(''verbose'', JBoolean True)] (fresh_input scenario_definition)
   \<and> input_options (snd (assignOptionsFrom [(''v'', JBoolean True)] (fresh_input scenario_definition)))
        (JString ''verbose'') = Some (JBoolean True)"
proof -
  let ?verbose = "\<lparr>opt_name = ''verbose'', shortcuts = [''v'']\<rparr>"
  have registered: "options (input_definition (fresh_input scenario_definition)) = [?verbose]"
    by (simp add: fresh_input_def scenario_definition_def options_def)
  have "?verbose \<in> set (options (input_definition (fresh_input scenario_definition)))"
    and "''v'' \<in> set (shortcuts ?verbose)"
    and "\<forall>registered \<in> set (options (input_definition (fresh_input scenario_definition))).
           ''v'' \<in> set (shortcuts registered) \<longrightarrow> opt_name registered = opt_name ?verbose"
    and "\<forall>registered \<in> set (options (input_definition (fresh_input scenario_definition))).
           opt_name ?verbose \<in> set (shortcuts registered) \<longrightarrow> opt_name registered = opt_name ?verbose"
    by (simp_all add: registered)
  note bound = assignOptionsFrom_shortcut_as_name [OF this, of "JBoolean True"]
  from bound [THEN conjunct2]
  have "input_options (snd (assignOptionsFrom [(''v'', JBoolean True)] (fresh_input scenario_definition)))
          (JString ''verbose'') = Some (JBoolean True)"
    by simp
  with bound [THEN conjunct1] show ?thesis by simp
qed

text \<open>
  C5 as stated fails: the shortcut lookup comes first, for a name as for a shortcut.
  With the option \<open>v\<close> (shortcut \<open>x\<close>) and the option \<open>verbose\<close> (shortcut \<open>v\<close>), the
  token keyed \<open>x\<close> binds the value under \<open>v\<close>, and the token keyed by the full name
  \<open>v\<close> binds it under \<open>verbose\<close>.
\<close>

theorem assignOptionsFrom_name_shadowed_by_shortcut:
  "input_options (snd (assignOptionsFrom [(''x'', JBoolean True)] (fresh_input shadowed_definition)))
     (JString ''v'') = Some (JBoolean True)
   \<and> input_options (snd (assignOptionsFrom [(''v'', JBoolean True)] (fresh_input shadowed_definition)))
     (JString ''v'') = None
   \<and> input_options (snd (assignOptionsFrom [(''v'', JBoolean True)] (fresh_input shadowed_definition)))
     (JString ''verbose'') = Some (JBoolean True)"
  by (simp add: assignOptionsFrom_def assignOption_def hasOptionShortcut_def hasOption_def
      optionByShortcut_def option_name_of_def setOption_def
      includes_item_def fresh_input_def shadowed_definition_def options_def)

section \<open>Two runs on the same tokens and the same definition\<close>







end
